theory Spec2Isabelle
  imports Main
begin

section \<open>The fastboat booking data model (app/models.py)\<close>

text \<open>
  The module \<^verbatim>\<open>app/models.py\<close> holds no function body: it is a list of class
  declarations, four string enumerations, fourteen table classes
  (\<^verbatim>\<open>table=True\<close>) and eight request shapes (\<^verbatim>\<open>table=False\<close>). The embedding
  keeps the declarations as data, one entry per annotated attribute in the order of the
  source, and gives them their meaning by an interpreter for the keyword arguments of
  \<^verbatim>\<open>Field\<close>. The \<^verbatim>\<open>description=\<close> arguments are documentation and are left out.
\<close>

subsection \<open>Python values and type annotations\<close>

text \<open>
  A \<^verbatim>\<open>Decimal\<close> is kept as Python's \<^verbatim>\<open>as_tuple()\<close> gives it: the sign
  (\<open>True\<close> for negative), the digits and the exponent; \<^verbatim>\<open>Decimal("123.45")\<close> is
  \<open>VDecimal False [1,2,3,4,5] (-2)\<close>. A datetime is a date with a time of day.
\<close>

datatype pyval =
    VNone
  | VInt int
  | VStr string
  | VBool bool
  | VDecimal bool "nat list" int
  | VDate int nat nat
  | VTime nat nat nat
  | VDatetime int nat nat nat nat nat
  | VList "pyval list"
  | VDict "(string \<times> pyval) list"

type_synonym enum_decl = "(string \<times> string) list"

datatype py_type =
    TInt
  | TStr
  | TBool
  | TDecimal
  | TDate
  | TTime
  | TDatetime
  | TEnum enum_decl
  | TAny
  | TOptional py_type
  | TList py_type
  | TDict py_type

subsection \<open>Enums for status fields\<close>

definition UserRole :: enum_decl where
  "UserRole = [(''CUSTOMER'', ''customer''), (''ADMIN'', ''admin'')]"

definition BookingStatus :: enum_decl where
  "BookingStatus = [(''PENDING'', ''pending''), (''CONFIRMED'', ''confirmed''),
     (''CANCELLED'', ''cancelled''), (''COMPLETED'', ''completed'')]"

definition PaymentStatus :: enum_decl where
  "PaymentStatus = [(''PENDING'', ''pending''), (''PROCESSING'', ''processing''),
     (''COMPLETED'', ''completed''), (''FAILED'', ''failed''), (''REFUNDED'', ''refunded'')]"

definition ScheduleStatus :: enum_decl where
  "ScheduleStatus = [(''ACTIVE'', ''active''), (''SUSPENDED'', ''suspended''),
     (''CANCELLED'', ''cancelled'')]"

subsection \<open>Field declarations\<close>

text \<open>
  The keyword arguments of \<^verbatim>\<open>Field(...)\<close> that the module uses. \<open>Field\<close> is the
  call without arguments: a required attribute with no constraint. An attribute written
  \<^verbatim>\<open>x: T = None\<close> is \<^verbatim>\<open>Field(default=None)\<close>.
\<close>

datatype default_decl = Required | Default pyval | DefaultFactory string

record field_info =
  default :: default_decl
  primary_key :: bool
  unique :: bool
  foreign_key :: "string option"
  max_length :: "nat option"
  min_length :: "nat option"
  ge :: "int option"
  max_digits :: "nat option"
  decimal_places :: "nat option"
  sa_column :: "string option"

definition Field :: field_info where
  "Field = \<lparr> default = Required, primary_key = False, unique = False, foreign_key = None,
     max_length = None, min_length = None, ge = None, max_digits = None,
     decimal_places = None, sa_column = None \<rparr>"

type_synonym field_decl = "string \<times> py_type \<times> field_info"

text \<open>
  A class: its name, \<^verbatim>\<open>__tablename__\<close> when it is a table, its annotated attributes
  and its \<^verbatim>\<open>Relationship\<close> attributes (name, target class, \<^verbatim>\<open>back_populates\<close>).
\<close>

record model =
  model_name :: string
  tablename :: "string option"
  model_fields :: "field_decl list"
  relationships :: "(string \<times> string \<times> string) list"

subsection \<open>Language and translation models\<close>

definition Language :: model where
  "Language = \<lparr> model_name = ''Language'', tablename = Some ''languages'',
     model_fields = [
       (''id'', TOptional TInt, Field\<lparr>default := Default VNone, primary_key := True\<rparr>),
       (''code'', TStr, Field\<lparr>unique := True, max_length := Some 5\<rparr>),
       (''name'', TStr, Field\<lparr>max_length := Some 100\<rparr>),
       (''native_name'', TStr, Field\<lparr>max_length := Some 100\<rparr>),
       (''is_active'', TBool, Field\<lparr>default := Default (VBool True)\<rparr>),
       (''is_default'', TBool, Field\<lparr>default := Default (VBool False)\<rparr>),
       (''created_at'', TDatetime, Field\<lparr>default := DefaultFactory ''datetime.utcnow''\<rparr>)],
     relationships = [(''translations'', ''Translation'', ''language'')] \<rparr>"

definition Translation :: model where
  "Translation = \<lparr> model_name = ''Translation'', tablename = Some ''translations'',
     model_fields = [
       (''id'', TOptional TInt, Field\<lparr>default := Default VNone, primary_key := True\<rparr>),
       (''key'', TStr, Field\<lparr>max_length := Some 200\<rparr>),
       (''value'', TStr, Field),
       (''language_id'', TInt, Field\<lparr>foreign_key := Some ''languages.id''\<rparr>),
       (''created_at'', TDatetime, Field\<lparr>default := DefaultFactory ''datetime.utcnow''\<rparr>),
       (''updated_at'', TDatetime, Field\<lparr>default := DefaultFactory ''datetime.utcnow''\<rparr>)],
     relationships = [(''language'', ''Language'', ''translations'')] \<rparr>"

subsection \<open>User management\<close>

definition User :: model where
  "User = \<lparr> model_name = ''User'', tablename = Some ''users'',
     model_fields = [
       (''id'', TOptional TInt, Field\<lparr>default := Default VNone, primary_key := True\<rparr>),
       (''email'', TStr, Field\<lparr>unique := True, max_length := Some 255\<rparr>),
       (''password_hash'', TStr, Field\<lparr>max_length := Some 255\<rparr>),
       (''first_name'', TStr, Field\<lparr>max_length := Some 100\<rparr>),
       (''last_name'', TStr, Field\<lparr>max_length := Some 100\<rparr>),
       (''phone'', TOptional TStr, Field\<lparr>default := Default VNone, max_length := Some 20\<rparr>),
       (''role'', TEnum UserRole, Field\<lparr>default := Default (VStr ''customer'')\<rparr>),
       (''preferred_language'', TStr, Field\<lparr>default := Default (VStr ''en''), max_length := Some 5\<rparr>),
       (''is_active'', TBool, Field\<lparr>default := Default (VBool True)\<rparr>),
       (''created_at'', TDatetime, Field\<lparr>default := DefaultFactory ''datetime.utcnow''\<rparr>),
       (''updated_at'', TDatetime, Field\<lparr>default := DefaultFactory ''datetime.utcnow''\<rparr>)],
     relationships = [(''bookings'', ''Booking'', ''user'')] \<rparr>"

subsection \<open>Location and route management\<close>

definition Location :: model where
  "Location = \<lparr> model_name = ''Location'', tablename = Some ''locations'',
     model_fields = [
       (''id'', TOptional TInt, Field\<lparr>default := Default VNone, primary_key := True\<rparr>),
       (''code'', TStr, Field\<lparr>unique := True, max_length := Some 10\<rparr>),
       (''name'', TStr, Field\<lparr>max_length := Some 200\<rparr>),
       (''city'', TStr, Field\<lparr>max_length := Some 100\<rparr>),
       (''country'', TStr, Field\<lparr>max_length := Some 100\<rparr>),
       (''timezone'', TStr, Field\<lparr>default := Default (VStr ''UTC''), max_length := Some 50\<rparr>),
       (''is_active'', TBool, Field\<lparr>default := Default (VBool True)\<rparr>),
       (''created_at'', TDatetime, Field\<lparr>default := DefaultFactory ''datetime.utcnow''\<rparr>)],
     relationships = [(''departure_routes'', ''Route'', ''departure_location''),
       (''arrival_routes'', ''Route'', ''arrival_location'')] \<rparr>"

definition Route :: model where
  "Route = \<lparr> model_name = ''Route'', tablename = Some ''routes'',
     model_fields = [
       (''id'', TOptional TInt, Field\<lparr>default := Default VNone, primary_key := True\<rparr>),
       (''departure_location_id'', TInt, Field\<lparr>foreign_key := Some ''locations.id''\<rparr>),
       (''arrival_location_id'', TInt, Field\<lparr>foreign_key := Some ''locations.id''\<rparr>),
       (''distance_km'', TOptional TDecimal,
          Field\<lparr>default := Default VNone, max_digits := Some 8, decimal_places := Some 2\<rparr>),
       (''estimated_duration_minutes'', TInt, Field),
       (''is_active'', TBool, Field\<lparr>default := Default (VBool True)\<rparr>),
       (''created_at'', TDatetime, Field\<lparr>default := DefaultFactory ''datetime.utcnow''\<rparr>)],
     relationships = [(''departure_location'', ''Location'', ''departure_routes''),
       (''arrival_location'', ''Location'', ''arrival_routes''),
       (''schedules'', ''Schedule'', ''route''),
       (''seasonal_prices'', ''SeasonalPrice'', ''route'')] \<rparr>"

subsection \<open>Fastboat and schedule management\<close>

definition Fastboat :: model where
  "Fastboat = \<lparr> model_name = ''Fastboat'', tablename = Some ''fastboats'',
     model_fields = [
       (''id'', TOptional TInt, Field\<lparr>default := Default VNone, primary_key := True\<rparr>),
       (''name'', TStr, Field\<lparr>max_length := Some 200\<rparr>),
       (''operator'', TStr, Field\<lparr>max_length := Some 200\<rparr>),
       (''capacity'', TInt, Field),
       (''boat_type'', TStr, Field\<lparr>default := Default (VStr ''fastboat''), max_length := Some 100\<rparr>),
       (''facilities'', TDict TAny, Field\<lparr>default := Default (VDict []), sa_column := Some ''JSON''\<rparr>),
       (''is_active'', TBool, Field\<lparr>default := Default (VBool True)\<rparr>),
       (''created_at'', TDatetime, Field\<lparr>default := DefaultFactory ''datetime.utcnow''\<rparr>)],
     relationships = [(''schedules'', ''Schedule'', ''fastboat'')] \<rparr>"

definition Schedule :: model where
  "Schedule = \<lparr> model_name = ''Schedule'', tablename = Some ''schedules'',
     model_fields = [
       (''id'', TOptional TInt, Field\<lparr>default := Default VNone, primary_key := True\<rparr>),
       (''route_id'', TInt, Field\<lparr>foreign_key := Some ''routes.id''\<rparr>),
       (''fastboat_id'', TInt, Field\<lparr>foreign_key := Some ''fastboats.id''\<rparr>),
       (''departure_time'', TTime, Field),
       (''arrival_time'', TTime, Field),
       (''base_price'', TDecimal, Field\<lparr>max_digits := Some 10, decimal_places := Some 2\<rparr>),
       (''currency'', TStr, Field\<lparr>default := Default (VStr ''USD''), max_length := Some 3\<rparr>),
       (''days_of_week'', TList TInt, Field\<lparr>default := Default (VList []), sa_column := Some ''JSON''\<rparr>),
       (''effective_from'', TDate, Field),
       (''effective_until'', TOptional TDate, Field\<lparr>default := Default VNone\<rparr>),
       (''status'', TEnum ScheduleStatus, Field\<lparr>default := Default (VStr ''active'')\<rparr>),
       (''created_at'', TDatetime, Field\<lparr>default := DefaultFactory ''datetime.utcnow''\<rparr>),
       (''updated_at'', TDatetime, Field\<lparr>default := DefaultFactory ''datetime.utcnow''\<rparr>)],
     relationships = [(''route'', ''Route'', ''schedules''),
       (''fastboat'', ''Fastboat'', ''schedules''),
       (''daily_schedules'', ''DailySchedule'', ''schedule'')] \<rparr>"

definition DailySchedule :: model where
  "DailySchedule = \<lparr> model_name = ''DailySchedule'', tablename = Some ''daily_schedules'',
     model_fields = [
       (''id'', TOptional TInt, Field\<lparr>default := Default VNone, primary_key := True\<rparr>),
       (''schedule_id'', TInt, Field\<lparr>foreign_key := Some ''schedules.id''\<rparr>),
       (''travel_date'', TDate, Field),
       (''available_seats'', TInt, Field),
       (''price_override'', TOptional TDecimal,
          Field\<lparr>default := Default VNone, max_digits := Some 10, decimal_places := Some 2\<rparr>),
       (''is_available'', TBool, Field\<lparr>default := Default (VBool True)\<rparr>),
       (''booking_deadline'', TOptional TDatetime, Field\<lparr>default := Default VNone\<rparr>),
       (''notes'', TStr, Field\<lparr>default := Default (VStr []), max_length := Some 500\<rparr>),
       (''created_at'', TDatetime, Field\<lparr>default := DefaultFactory ''datetime.utcnow''\<rparr>),
       (''updated_at'', TDatetime, Field\<lparr>default := DefaultFactory ''datetime.utcnow''\<rparr>)],
     relationships = [(''schedule'', ''Schedule'', ''daily_schedules''),
       (''bookings'', ''Booking'', ''daily_schedule'')] \<rparr>"

subsection \<open>Seasonal pricing\<close>

definition SeasonalPrice :: model where
  "SeasonalPrice = \<lparr> model_name = ''SeasonalPrice'', tablename = Some ''seasonal_prices'',
     model_fields = [
       (''id'', TOptional TInt, Field\<lparr>default := Default VNone, primary_key := True\<rparr>),
       (''route_id'', TInt, Field\<lparr>foreign_key := Some ''routes.id''\<rparr>),
       (''season_name'', TStr, Field\<lparr>max_length := Some 100\<rparr>),
       (''start_date'', TDate, Field),
       (''end_date'', TDate, Field),
       (''price_multiplier'', TDecimal, Field\<lparr>max_digits := Some 5, decimal_places := Some 3\<rparr>),
       (''is_active'', TBool, Field\<lparr>default := Default (VBool True)\<rparr>),
       (''created_at'', TDatetime, Field\<lparr>default := DefaultFactory ''datetime.utcnow''\<rparr>)],
     relationships = [(''route'', ''Route'', ''seasonal_prices'')] \<rparr>"

subsection \<open>Booking management\<close>

definition Booking :: model where
  "Booking = \<lparr> model_name = ''Booking'', tablename = Some ''bookings'',
     model_fields = [
       (''id'', TOptional TInt, Field\<lparr>default := Default VNone, primary_key := True\<rparr>),
       (''booking_reference'', TStr, Field\<lparr>unique := True, max_length := Some 20\<rparr>),
       (''user_id'', TInt, Field\<lparr>foreign_key := Some ''users.id''\<rparr>),
       (''daily_schedule_id'', TInt, Field\<lparr>foreign_key := Some ''daily_schedules.id''\<rparr>),
       (''passenger_count'', TInt, Field),
       (''total_amount'', TDecimal, Field\<lparr>max_digits := Some 10, decimal_places := Some 2\<rparr>),
       (''currency'', TStr, Field\<lparr>default := Default (VStr ''USD''), max_length := Some 3\<rparr>),
       (''status'', TEnum BookingStatus, Field\<lparr>default := Default (VStr ''pending'')\<rparr>),
       (''contact_email'', TStr, Field\<lparr>max_length := Some 255\<rparr>),
       (''contact_phone'', TStr, Field\<lparr>max_length := Some 20\<rparr>),
       (''special_requests'', TStr, Field\<lparr>default := Default (VStr []), max_length := Some 1000\<rparr>),
       (''booking_deadline'', TDatetime, Field),
       (''booked_at'', TDatetime, Field\<lparr>default := DefaultFactory ''datetime.utcnow''\<rparr>),
       (''confirmed_at'', TOptional TDatetime, Field\<lparr>default := Default VNone\<rparr>),
       (''cancelled_at'', TOptional TDatetime, Field\<lparr>default := Default VNone\<rparr>),
       (''cancellation_reason'', TStr, Field\<lparr>default := Default (VStr []), max_length := Some 500\<rparr>)],
     relationships = [(''user'', ''User'', ''bookings''),
       (''daily_schedule'', ''DailySchedule'', ''bookings''),
       (''passengers'', ''Passenger'', ''booking''),
       (''payments'', ''Payment'', ''booking'')] \<rparr>"

definition Passenger :: model where
  "Passenger = \<lparr> model_name = ''Passenger'', tablename = Some ''passengers'',
     model_fields = [
       (''id'', TOptional TInt, Field\<lparr>default := Default VNone, primary_key := True\<rparr>),
       (''booking_id'', TInt, Field\<lparr>foreign_key := Some ''bookings.id''\<rparr>),
       (''first_name'', TStr, Field\<lparr>max_length := Some 100\<rparr>),
       (''last_name'', TStr, Field\<lparr>max_length := Some 100\<rparr>),
       (''date_of_birth'', TOptional TDate, Field\<lparr>default := Default VNone\<rparr>),
       (''nationality'', TOptional TStr, Field\<lparr>default := Default VNone, max_length := Some 100\<rparr>),
       (''passport_number'', TOptional TStr, Field\<lparr>default := Default VNone, max_length := Some 50\<rparr>),
       (''id_number'', TOptional TStr, Field\<lparr>default := Default VNone, max_length := Some 50\<rparr>),
       (''special_needs'', TStr, Field\<lparr>default := Default (VStr []), max_length := Some 500\<rparr>),
       (''created_at'', TDatetime, Field\<lparr>default := DefaultFactory ''datetime.utcnow''\<rparr>)],
     relationships = [(''booking'', ''Booking'', ''passengers'')] \<rparr>"

subsection \<open>Payment management\<close>

definition Payment :: model where
  "Payment = \<lparr> model_name = ''Payment'', tablename = Some ''payments'',
     model_fields = [
       (''id'', TOptional TInt, Field\<lparr>default := Default VNone, primary_key := True\<rparr>),
       (''booking_id'', TInt, Field\<lparr>foreign_key := Some ''bookings.id''\<rparr>),
       (''payment_reference'', TStr, Field\<lparr>unique := True, max_length := Some 100\<rparr>),
       (''amount'', TDecimal, Field\<lparr>max_digits := Some 10, decimal_places := Some 2\<rparr>),
       (''currency'', TStr, Field\<lparr>default := Default (VStr ''USD''), max_length := Some 3\<rparr>),
       (''payment_method'', TStr, Field\<lparr>max_length := Some 50\<rparr>),
       (''gateway_provider'', TStr, Field\<lparr>max_length := Some 50\<rparr>),
       (''gateway_transaction_id'', TOptional TStr, Field\<lparr>default := Default VNone, max_length := Some 255\<rparr>),
       (''status'', TEnum PaymentStatus, Field\<lparr>default := Default (VStr ''pending'')\<rparr>),
       (''gateway_response'', TDict TAny, Field\<lparr>default := Default (VDict []), sa_column := Some ''JSON''\<rparr>),
       (''processed_at'', TOptional TDatetime, Field\<lparr>default := Default VNone\<rparr>),
       (''failed_at'', TOptional TDatetime, Field\<lparr>default := Default VNone\<rparr>),
       (''failure_reason'', TStr, Field\<lparr>default := Default (VStr []), max_length := Some 500\<rparr>),
       (''refunded_at'', TOptional TDatetime, Field\<lparr>default := Default VNone\<rparr>),
       (''refund_amount'', TOptional TDecimal,
          Field\<lparr>default := Default VNone, max_digits := Some 10, decimal_places := Some 2\<rparr>),
       (''created_at'', TDatetime, Field\<lparr>default := DefaultFactory ''datetime.utcnow''\<rparr>),
       (''updated_at'', TDatetime, Field\<lparr>default := DefaultFactory ''datetime.utcnow''\<rparr>)],
     relationships = [(''booking'', ''Booking'', ''payments'')] \<rparr>"

subsection \<open>Admin dashboard and reports\<close>

definition AdminAction :: model where
  "AdminAction = \<lparr> model_name = ''AdminAction'', tablename = Some ''admin_actions'',
     model_fields = [
       (''id'', TOptional TInt, Field\<lparr>default := Default VNone, primary_key := True\<rparr>),
       (''admin_user_id'', TInt, Field\<lparr>foreign_key := Some ''users.id''\<rparr>),
       (''action_type'', TStr, Field\<lparr>max_length := Some 100\<rparr>),
       (''resource_type'', TStr, Field\<lparr>max_length := Some 100\<rparr>),
       (''resource_id'', TOptional TInt, Field\<lparr>default := Default VNone\<rparr>),
       (''description'', TStr, Field\<lparr>max_length := Some 500\<rparr>),
       (''action_metadata'', TDict TAny, Field\<lparr>default := Default (VDict []), sa_column := Some ''JSON''\<rparr>),
       (''created_at'', TDatetime, Field\<lparr>default := DefaultFactory ''datetime.utcnow''\<rparr>)],
     relationships = [] \<rparr>"

definition SystemSettings :: model where
  "SystemSettings = \<lparr> model_name = ''SystemSettings'', tablename = Some ''system_settings'',
     model_fields = [
       (''id'', TOptional TInt, Field\<lparr>default := Default VNone, primary_key := True\<rparr>),
       (''key'', TStr, Field\<lparr>unique := True, max_length := Some 100\<rparr>),
       (''value'', TStr, Field),
       (''data_type'', TStr, Field\<lparr>max_length := Some 20\<rparr>),
       (''description'', TStr, Field\<lparr>default := Default (VStr []), max_length := Some 500\<rparr>),
       (''is_public'', TBool, Field\<lparr>default := Default (VBool False)\<rparr>),
       (''created_at'', TDatetime, Field\<lparr>default := DefaultFactory ''datetime.utcnow''\<rparr>),
       (''updated_at'', TDatetime, Field\<lparr>default := DefaultFactory ''datetime.utcnow''\<rparr>)],
     relationships = [] \<rparr>"

subsection \<open>Non-persistent schemas for API and forms\<close>

definition UserCreate :: model where
  "UserCreate = \<lparr> model_name = ''UserCreate'', tablename = None,
     model_fields = [
       (''email'', TStr, Field\<lparr>max_length := Some 255\<rparr>),
       (''password'', TStr, Field\<lparr>min_length := Some 6\<rparr>),
       (''first_name'', TStr, Field\<lparr>max_length := Some 100\<rparr>),
       (''last_name'', TStr, Field\<lparr>max_length := Some 100\<rparr>),
       (''phone'', TOptional TStr, Field\<lparr>default := Default VNone, max_length := Some 20\<rparr>),
       (''preferred_language'', TStr, Field\<lparr>default := Default (VStr ''en''), max_length := Some 5\<rparr>)],
     relationships = [] \<rparr>"

definition UserLogin :: model where
  "UserLogin = \<lparr> model_name = ''UserLogin'', tablename = None,
     model_fields = [
       (''email'', TStr, Field\<lparr>max_length := Some 255\<rparr>),
       (''password'', TStr, Field)],
     relationships = [] \<rparr>"

definition RouteSearch :: model where
  "RouteSearch = \<lparr> model_name = ''RouteSearch'', tablename = None,
     model_fields = [
       (''departure_location_id'', TInt, Field),
       (''arrival_location_id'', TInt, Field),
       (''travel_date'', TDate, Field),
       (''passenger_count'', TInt, Field\<lparr>default := Default (VInt 1), ge := Some 1\<rparr>)],
     relationships = [] \<rparr>"

definition BookingCreate :: model where
  "BookingCreate = \<lparr> model_name = ''BookingCreate'', tablename = None,
     model_fields = [
       (''daily_schedule_id'', TInt, Field),
       (''passenger_count'', TInt, Field\<lparr>ge := Some 1\<rparr>),
       (''contact_email'', TStr, Field\<lparr>max_length := Some 255\<rparr>),
       (''contact_phone'', TStr, Field\<lparr>max_length := Some 20\<rparr>),
       (''special_requests'', TStr, Field\<lparr>default := Default (VStr []), max_length := Some 1000\<rparr>),
       (''passengers'', TList (TDict TAny), Field)],
     relationships = [] \<rparr>"

definition PaymentCreate :: model where
  "PaymentCreate = \<lparr> model_name = ''PaymentCreate'', tablename = None,
     model_fields = [
       (''booking_id'', TInt, Field),
       (''payment_method'', TStr, Field\<lparr>max_length := Some 50\<rparr>),
       (''gateway_provider'', TStr, Field\<lparr>max_length := Some 50\<rparr>),
       (''return_url'', TStr, Field)],
     relationships = [] \<rparr>"

definition ScheduleCreate :: model where
  "ScheduleCreate = \<lparr> model_name = ''ScheduleCreate'', tablename = None,
     model_fields = [
       (''route_id'', TInt, Field),
       (''fastboat_id'', TInt, Field),
       (''departure_time'', TTime, Field),
       (''arrival_time'', TTime, Field),
       (''base_price'', TDecimal, Field\<lparr>max_digits := Some 10, decimal_places := Some 2\<rparr>),
       (''currency'', TStr, Field\<lparr>default := Default (VStr ''USD''), max_length := Some 3\<rparr>),
       (''days_of_week'', TList TInt, Field),
       (''effective_from'', TDate, Field),
       (''effective_until'', TOptional TDate, Field\<lparr>default := Default VNone\<rparr>)],
     relationships = [] \<rparr>"

definition DailyScheduleUpdate :: model where
  "DailyScheduleUpdate = \<lparr> model_name = ''DailyScheduleUpdate'', tablename = None,
     model_fields = [
       (''available_seats'', TOptional TInt, Field\<lparr>default := Default VNone\<rparr>),
       (''price_override'', TOptional TDecimal,
          Field\<lparr>default := Default VNone, max_digits := Some 10, decimal_places := Some 2\<rparr>),
       (''is_available'', TOptional TBool, Field\<lparr>default := Default VNone\<rparr>),
       (''booking_deadline'', TOptional TDatetime, Field\<lparr>default := Default VNone\<rparr>),
       (''notes'', TOptional TStr, Field\<lparr>default := Default VNone, max_length := Some 500\<rparr>)],
     relationships = [] \<rparr>"

definition SalesReportFilters :: model where
  "SalesReportFilters = \<lparr> model_name = ''SalesReportFilters'', tablename = None,
     model_fields = [
       (''start_date'', TDate, Field),
       (''end_date'', TDate, Field),
       (''route_id'', TOptional TInt, Field\<lparr>default := Default VNone\<rparr>),
       (''fastboat_id'', TOptional TInt, Field\<lparr>default := Default VNone\<rparr>),
       (''status'', TOptional (TEnum BookingStatus), Field\<lparr>default := Default VNone\<rparr>)],
     relationships = [] \<rparr>"

text \<open>Every class of the module, in the order of the source.\<close>

definition all_models :: "model list" where
  "all_models = [Language, Translation, User, Location, Route, Fastboat, Schedule,
     DailySchedule, SeasonalPrice, Booking, Passenger, Payment, AdminAction, SystemSettings,
     UserCreate, UserLogin, RouteSearch, BookingCreate, PaymentCreate, ScheduleCreate,
     DailyScheduleUpdate, SalesReportFilters]"

section \<open>What the declarations mean\<close>

subsection \<open>Annotations\<close>

text \<open>
  Whether a value is of the annotated type. Values are taken at their annotated types:
  the conversions that the validator may try on a value of another type (a numeric string
  for an \<^verbatim>\<open>int\<close>, say) are not part of the model, and such a value is reported as a
  type error. A member of a string enumeration is the string of its value.
\<close>

fun has_type :: "py_type \<Rightarrow> pyval \<Rightarrow> bool" where
  "has_type TAny v = True"
| "has_type (TOptional t) v = (v = VNone \<or> has_type t v)"
| "has_type TInt v = (case v of VInt n \<Rightarrow> True | _ \<Rightarrow> False)"
| "has_type TStr v = (case v of VStr s \<Rightarrow> True | _ \<Rightarrow> False)"
| "has_type TBool v = (case v of VBool b \<Rightarrow> True | _ \<Rightarrow> False)"
| "has_type TDecimal v = (case v of VDecimal sg ds e \<Rightarrow> True | _ \<Rightarrow> False)"
| "has_type TDate v = (case v of VDate y m d \<Rightarrow> True | _ \<Rightarrow> False)"
| "has_type TTime v = (case v of VTime h m s \<Rightarrow> True | _ \<Rightarrow> False)"
| "has_type TDatetime v = (case v of VDatetime y m d h mi s \<Rightarrow> True | _ \<Rightarrow> False)"
| "has_type (TEnum e) v = (case v of VStr s \<Rightarrow> s \<in> set (map snd e) | _ \<Rightarrow> False)"
| "has_type (TList t) v = (case v of VList vs \<Rightarrow> list_all (has_type t) vs | _ \<Rightarrow> False)"
| "has_type (TDict t) v =
     (case v of VDict kvs \<Rightarrow> list_all (\<lambda>kv. has_type t (snd kv)) kvs | _ \<Rightarrow> False)"

subsection \<open>Constraints\<close>

datatype error_type =
    Missing
  | WrongType
  | GreaterThanEqual
  | StringTooShort
  | StringTooLong
  | DecimalMaxDigits
  | DecimalMaxPlaces
  | DecimalWholeDigits

text \<open>
  The digits and the decimal places that a \<^verbatim>\<open>Decimal\<close> counts for
  \<^verbatim>\<open>max_digits\<close> and \<^verbatim>\<open>decimal_places\<close>: a positive exponent adds trailing
  zeros, a negative one is the number of decimal places and may exceed the digits written.
\<close>

definition decimal_digits :: "nat list \<Rightarrow> int \<Rightarrow> nat \<times> nat" where
  "decimal_digits ds e =
     (if 0 \<le> e then (length ds + nat e, 0)
      else (max (length ds) (nat (- e)), nat (- e)))"

definition check_decimal :: "field_info \<Rightarrow> nat list \<Rightarrow> int \<Rightarrow> error_type option" where
  "check_decimal f ds e =
     (let (digits, decimals) = decimal_digits ds e in
      if (case max_digits f of Some md \<Rightarrow> md < digits | None \<Rightarrow> False)
        then Some DecimalMaxDigits
      else if (case decimal_places f of Some dp \<Rightarrow> dp < decimals | None \<Rightarrow> False)
        then Some DecimalMaxPlaces
      else if (case (max_digits f, decimal_places f) of
                 (Some md, Some dp) \<Rightarrow> md - dp < digits - decimals
               | _ \<Rightarrow> False)
        then Some DecimalWholeDigits
      else None)"

definition check_str :: "field_info \<Rightarrow> string \<Rightarrow> error_type option" where
  "check_str f s =
     (if (case min_length f of Some n \<Rightarrow> length s < n | None \<Rightarrow> False)
        then Some StringTooShort
      else if (case max_length f of Some n \<Rightarrow> n < length s | None \<Rightarrow> False)
        then Some StringTooLong
      else None)"

definition check_int :: "field_info \<Rightarrow> int \<Rightarrow> error_type option" where
  "check_int f n =
     (if (case ge f of Some b \<Rightarrow> n < b | None \<Rightarrow> False) then Some GreaterThanEqual else None)"

text \<open>The constraint of a field on a value of its type; \<^verbatim>\<open>None\<close> passes.\<close>

fun check_value :: "field_info \<Rightarrow> pyval \<Rightarrow> error_type option" where
  "check_value f (VInt n) = check_int f n"
| "check_value f (VStr s) = check_str f s"
| "check_value f (VDecimal sg ds e) = check_decimal f ds e"
| "check_value f v = None"

subsection \<open>Validation and construction\<close>

text \<open>
  The keyword arguments given to a class, and the attributes of an object.
\<close>

type_synonym kwargs = "string \<rightharpoonup> pyval"
type_synonym row = "string \<rightharpoonup> pyval"

text \<open>
  One field: an argument that is not given is an error when the field is required and is
  the default otherwise (a default is not validated); an argument that is given must be
  of the annotated type and meet the constraint. Every failing field is reported, with
  its name.
\<close>

definition validate_field :: "kwargs \<Rightarrow> field_decl \<Rightarrow> (string \<times> error_type) list" where
  "validate_field d fd =
     (case fd of (n, t, f) \<Rightarrow>
        (case d n of
           None \<Rightarrow> (if default f = Required then [(n, Missing)] else [])
         | Some v \<Rightarrow>
             if \<not> has_type t v then [(n, WrongType)]
             else (case check_value f v of None \<Rightarrow> [] | Some e \<Rightarrow> [(n, e)])))"

text \<open>
  The arguments that are complete and of the annotated types: every required field is
  given and every argument given for a field has the type of its annotation.
\<close>

definition well_typed :: "model \<Rightarrow> kwargs \<Rightarrow> bool" where
  "well_typed m d =
     list_all (\<lambda>(n, t, f). case d n of
                           None \<Rightarrow> default f \<noteq> Required
                         | Some v \<Rightarrow> has_type t v) (model_fields m)"

definition validation_errors :: "model \<Rightarrow> kwargs \<Rightarrow> (string \<times> error_type) list" where
  "validation_errors m d = concat (map (validate_field d) (model_fields m))"

text \<open>
  The value an attribute gets: the argument, else the default; \<open>now\<close> is what the
  default factory \<^verbatim>\<open>datetime.utcnow\<close> returns at the call.
\<close>

definition field_value :: "pyval \<Rightarrow> kwargs \<Rightarrow> field_info \<Rightarrow> string \<Rightarrow> pyval option" where
  "field_value now d f n =
     (case d n of
        Some v \<Rightarrow> Some v
      | None \<Rightarrow> (case default f of
                   Required \<Rightarrow> None
                 | Default v \<Rightarrow> Some v
                 | DefaultFactory g \<Rightarrow> Some now))"

text \<open>
  The object built from the arguments: it has the declared attributes and no other, an
  argument that names no field being ignored.
\<close>

definition construct :: "pyval \<Rightarrow> model \<Rightarrow> kwargs \<Rightarrow> row" where
  "construct now m d =
     (\<lambda>k. case map_of (model_fields m) k of
            None \<Rightarrow> None
          | Some (t, f) \<Rightarrow> field_value now d f k)"

definition model_validate ::
    "pyval \<Rightarrow> model \<Rightarrow> kwargs \<Rightarrow> (string \<times> error_type) list + row" where
  "model_validate now m d =
     (case validation_errors m d of
        [] \<Rightarrow> Inr (construct now m d)
      | e # es \<Rightarrow> Inl (e # es))"

subsection \<open>Reading the declarations\<close>

definition field_names :: "model \<Rightarrow> string list" where
  "field_names m = map fst (model_fields m)"

text \<open>Every attribute of the class body: the fields, then the relationships.\<close>

definition attribute_names :: "model \<Rightarrow> string list" where
  "attribute_names m = field_names m @ map fst (relationships m)"

definition models_with_attribute :: "string \<Rightarrow> string list" where
  "models_with_attribute a =
     map model_name (filter (\<lambda>m. a \<in> set (attribute_names m)) all_models)"

text \<open>The annotation under \<^verbatim>\<open>Optional\<close>.\<close>

fun base_type :: "py_type \<Rightarrow> py_type" where
  "base_type (TOptional t) = base_type t"
| "base_type t = t"

text \<open>
  The \<^verbatim>\<open>Decimal\<close> fields of a class with the precision and scale they declare:
  class, field, \<^verbatim>\<open>max_digits\<close>, \<^verbatim>\<open>decimal_places\<close>.
\<close>

definition decimal_fields :: "model \<Rightarrow> (string \<times> string \<times> nat option \<times> nat option) list" where
  "decimal_fields m =
     map (\<lambda>(n, t, f). (model_name m, n, max_digits f, decimal_places f))
       (filter (\<lambda>(n, t, f). base_type t = TDecimal) (model_fields m))"

text \<open>The fields of a class that declare \<^verbatim>\<open>min_length\<close>: class, field, bound.\<close>

definition min_length_fields :: "model \<Rightarrow> (string \<times> string \<times> nat) list" where
  "min_length_fields m =
     concat (map (\<lambda>(n, t, f). case min_length f of
                                 None \<Rightarrow> []
                               | Some b \<Rightarrow> [(model_name m, n, b)]) (model_fields m))"

text \<open>The columns of a class that declare \<^verbatim>\<open>unique=True\<close>.\<close>

definition unique_columns :: "model \<Rightarrow> string list" where
  "unique_columns m = map fst (filter (\<lambda>(n, t, f). unique f) (model_fields m))"

section \<open>Operations the module leaves to its callers\<close>

text \<open>
  The module declares the tables and the shapes; the code that inserts rows, applies a
  partial update or asks whether a schedule runs on a date is not part of it. The three
  operations below are written from the specification, over the declarations above.
\<close>

subsection \<open>Inserting rows\<close>

text \<open>The store: the rows of each table, by table name, in insertion order.\<close>

type_synonym store = "string \<Rightarrow> row list"

definition empty_store :: store where
  "empty_store = (\<lambda>t. [])"

datatype db_error = NotATable | IntegrityError string

text \<open>The first unique column on which a new row repeats the value of a stored row.\<close>

definition duplicate_column :: "model \<Rightarrow> row \<Rightarrow> row list \<Rightarrow> string option" where
  "duplicate_column m r rs =
     List.find (\<lambda>c. list_ex (\<lambda>r'. r' c = r c) rs) (unique_columns m)"

text \<open>
  Modelled from the spec: the module has no insert operation; the specification says that
  the uniqueness constraints reject duplicate insert attempts. The columns that carry the
  constraint are read from the declarations (\<open>unique_columns\<close>).
\<close>

definition insert_row :: "model \<Rightarrow> row \<Rightarrow> store \<Rightarrow> db_error + store" where
  "insert_row m r st =
     (case tablename m of
        None \<Rightarrow> Inl NotATable
      | Some t \<Rightarrow>
          (case duplicate_column m r (st t) of
             Some c \<Rightarrow> Inl (IntegrityError c)
           | None \<Rightarrow> Inr (st(t := st t @ [r]))))"

text \<open>The stores that inserts of rows of the declared classes reach from the empty one.\<close>

inductive reachable :: "store \<Rightarrow> bool" where
  reachable_empty: "reachable empty_store"
| reachable_insert:
    "reachable st \<Longrightarrow> m \<in> set all_models \<Longrightarrow> insert_row m r st = Inr st'
       \<Longrightarrow> reachable st'"

subsection \<open>Applying a partial update\<close>

text \<open>
  Modelled from the spec: the module has no code that applies a
  \<^verbatim>\<open>DailyScheduleUpdate\<close> to a \<^verbatim>\<open>DailySchedule\<close>; the specification says that
  every field is optional and that absence means "leave unchanged". A field of the update
  is absent when it is \<^verbatim>\<open>None\<close>, its default.
\<close>

definition apply_update :: "row \<Rightarrow> row \<Rightarrow> row" where
  "apply_update target upd =
     (\<lambda>k. if k \<in> set (field_names DailyScheduleUpdate)
          then (case upd k of
                  None \<Rightarrow> target k
                | Some v \<Rightarrow> if v = VNone then target k else Some v)
          else target k)"

subsection \<open>Dates\<close>

text \<open>
  A date is its year, month and day. The ordinal and the weekday are those of Python's
  \<^verbatim>\<open>date\<close>: day 1 is 0001-01-01 and Monday is 0.
\<close>

type_synonym date = "int \<times> nat \<times> nat"

definition is_leap :: "int \<Rightarrow> bool" where
  "is_leap y = (y mod 4 = 0 \<and> (y mod 100 \<noteq> 0 \<or> y mod 400 = 0))"

definition days_before_year :: "int \<Rightarrow> int" where
  "days_before_year year =
     (let y = year - 1 in y * 365 + y div 4 - y div 100 + y div 400)"

definition DAYS_BEFORE_MONTH :: "int list" where
  "DAYS_BEFORE_MONTH = [0, 0, 31, 59, 90, 120, 151, 181, 212, 243, 273, 304, 334]"

definition days_before_month :: "int \<Rightarrow> nat \<Rightarrow> int" where
  "days_before_month year month =
     DAYS_BEFORE_MONTH ! month + (if 2 < month \<and> is_leap year then 1 else 0)"

definition DAYS_IN_MONTH :: "nat list" where
  "DAYS_IN_MONTH = [0, 31, 28, 31, 30, 31, 30, 31, 31, 30, 31, 30, 31]"

definition days_in_month :: "int \<Rightarrow> nat \<Rightarrow> nat" where
  "days_in_month year month =
     (if month = 2 \<and> is_leap year then 29 else DAYS_IN_MONTH ! month)"

text \<open>The dates that the constructor of \<^verbatim>\<open>date\<close> accepts; it raises on any other.\<close>

definition valid_date :: "date \<Rightarrow> bool" where
  "valid_date dt =
     (case dt of (y, m, d) \<Rightarrow>
        1 \<le> y \<and> y \<le> 9999 \<and> 1 \<le> m \<and> m \<le> 12 \<and> 1 \<le> d \<and> d \<le> days_in_month y m)"

definition toordinal :: "date \<Rightarrow> int" where
  "toordinal dt = (case dt of (y, m, d) \<Rightarrow> days_before_year y + days_before_month y m + int d)"

text \<open>The weekday of a date, \<open>None\<close> when there is no such date.\<close>

definition weekday :: "date \<Rightarrow> int option" where
  "weekday dt = (if valid_date dt then Some ((toordinal dt + 6) mod 7) else None)"

definition date_le :: "date \<Rightarrow> date \<Rightarrow> bool" where
  "date_le a b =
     (case (a, b) of ((y1, m1, d1), (y2, m2, d2)) \<Rightarrow>
        y1 < y2 \<or> (y1 = y2 \<and> (m1 < m2 \<or> (m1 = m2 \<and> d1 \<le> d2))))"

subsection \<open>Is a schedule active on a date\<close>

definition runs_on_weekday :: "pyval option \<Rightarrow> int \<Rightarrow> bool" where
  "runs_on_weekday v w = (case v of Some (VList ds) \<Rightarrow> VInt w \<in> set ds | _ \<Rightarrow> False)"

definition starts_by :: "pyval option \<Rightarrow> date \<Rightarrow> bool" where
  "starts_by v dt = (case v of Some (VDate y m d) \<Rightarrow> date_le (y, m, d) dt | _ \<Rightarrow> False)"

definition not_ended :: "pyval option \<Rightarrow> date \<Rightarrow> bool" where
  "not_ended v dt =
     (case v of
        Some VNone \<Rightarrow> True
      | Some (VDate y m d) \<Rightarrow> date_le dt (y, m, d)
      | _ \<Rightarrow> False)"

text \<open>
  Modelled from the spec: the module has no query for the schedules of a date; the
  specification's weekday/range rule for a \<^verbatim>\<open>Schedule\<close> is that the weekday of the
  date (0 for Monday) is among \<^verbatim>\<open>days_of_week\<close>, that the date is in the window from
  \<^verbatim>\<open>effective_from\<close> to \<^verbatim>\<open>effective_until\<close>, open when that is \<^verbatim>\<open>None\<close>, and
  that the status is active.
\<close>

definition is_active_on :: "row \<Rightarrow> date \<Rightarrow> bool" where
  "is_active_on s dt =
     ((case weekday dt of
         None \<Rightarrow> False
       | Some w \<Rightarrow> runs_on_weekday (s ''days_of_week'') w)
      \<and> starts_by (s ''effective_from'') dt
      \<and> not_ended (s ''effective_until'') dt
      \<and> s ''status'' = Some (VStr ''active''))"

section \<open>Arguments used in the statements\<close>

text \<open>Keyword arguments for the classes the properties below construct.\<close>

definition search_args :: "int \<Rightarrow> int \<Rightarrow> int \<Rightarrow> kwargs" where
  "search_args a b n =
     map_of [(''departure_location_id'', VInt a), (''arrival_location_id'', VInt b),
       (''travel_date'', VDate 2024 6 10), (''passenger_count'', VInt n)]"

definition booking_args :: "int \<Rightarrow> int \<Rightarrow> string \<Rightarrow> string \<Rightarrow> pyval list \<Rightarrow> kwargs" where
  "booking_args i n e ph ps =
     map_of [(''daily_schedule_id'', VInt i), (''passenger_count'', VInt n),
       (''contact_email'', VStr e), (''contact_phone'', VStr ph), (''passengers'', VList ps)]"

definition route_args :: "int \<Rightarrow> int \<Rightarrow> int \<Rightarrow> kwargs" where
  "route_args a b n =
     map_of [(''departure_location_id'', VInt a), (''arrival_location_id'', VInt b),
       (''estimated_duration_minutes'', VInt n)]"

text \<open>A schedule at 08:00 for 25.00, without and with \<^verbatim>\<open>days_of_week\<close>.\<close>

definition schedule_args_no_days :: "int \<Rightarrow> int \<Rightarrow> (string \<times> pyval) list" where
  "schedule_args_no_days r b =
     [(''route_id'', VInt r), (''fastboat_id'', VInt b),
      (''departure_time'', VTime 8 0 0), (''arrival_time'', VTime 9 30 0),
      (''base_price'', VDecimal False [2, 5, 0, 0] (- 2)),
      (''effective_from'', VDate 2024 1 1)]"

definition schedule_args :: "int \<Rightarrow> int \<Rightarrow> int list \<Rightarrow> kwargs" where
  "schedule_args r b ds =
     map_of ((''days_of_week'', VList (map VInt ds)) # schedule_args_no_days r b)"

definition user_args :: "string \<Rightarrow> kwargs" where
  "user_args p =
     map_of [(''email'', VStr ''a@b.c''), (''password'', VStr p),
       (''first_name'', VStr ''A''), (''last_name'', VStr ''B'')]"

definition utc_2024 :: pyval where
  "utc_2024 = VDatetime 2024 1 1 0 0 0"

text \<open>A user row, and the store that holds one user.\<close>

definition user_row :: "string \<Rightarrow> string \<Rightarrow> row" where
  "user_row e h =
     construct utc_2024 User
       (map_of [(''email'', VStr e), (''password_hash'', VStr h),
          (''first_name'', VStr ''A''), (''last_name'', VStr ''B'')])"

definition one_user_store :: store where
  "one_user_store = empty_store(''users'' := [user_row ''a@b.c'' ''h1''])"

text \<open>A daily schedule with 40 seats, and an update that sets the seats only.\<close>

definition daily_schedule_row :: row where
  "daily_schedule_row =
     construct utc_2024 DailySchedule
       (map_of [(''schedule_id'', VInt 1), (''travel_date'', VDate 2024 6 10),
          (''available_seats'', VInt 40)])"

definition seats_update :: "int \<Rightarrow> row" where
  "seats_update n =
     construct utc_2024 DailyScheduleUpdate (map_of [(''available_seats'', VInt n)])"

section \<open>Properties\<close>

lemmas model_defs =
  Language_def Translation_def User_def Location_def Route_def Fastboat_def Schedule_def
  DailySchedule_def SeasonalPrice_def Booking_def Passenger_def Payment_def AdminAction_def
  SystemSettings_def UserCreate_def UserLogin_def RouteSearch_def BookingCreate_def
  PaymentCreate_def ScheduleCreate_def DailyScheduleUpdate_def SalesReportFilters_def

subsection \<open>Precision and scale of the decimal fields\<close>

text \<open>
  C5. The module has nine \<^verbatim>\<open>Decimal\<close> fields. The seven amounts
  (\<^verbatim>\<open>Schedule.base_price\<close>, \<^verbatim>\<open>DailySchedule.price_override\<close>,
  \<^verbatim>\<open>Booking.total_amount\<close>, \<^verbatim>\<open>Payment.amount\<close>, \<^verbatim>\<open>Payment.refund_amount\<close>,
  \<^verbatim>\<open>ScheduleCreate.base_price\<close>, \<^verbatim>\<open>DailyScheduleUpdate.price_override\<close>) declare
  10 digits with 2 decimal places, \<^verbatim>\<open>Route.distance_km\<close> declares 8 with 2 and
  \<^verbatim>\<open>SeasonalPrice.price_multiplier\<close> declares 5 with 3.
\<close>

theorem decimal_precision_and_scale:
  "concat (map decimal_fields all_models) =
     [(''Route'', ''distance_km'', Some 8, Some 2),
      (''Schedule'', ''base_price'', Some 10, Some 2),
      (''DailySchedule'', ''price_override'', Some 10, Some 2),
      (''SeasonalPrice'', ''price_multiplier'', Some 5, Some 3),
      (''Booking'', ''total_amount'', Some 10, Some 2),
      (''Payment'', ''amount'', Some 10, Some 2),
      (''Payment'', ''refund_amount'', Some 10, Some 2),
      (''ScheduleCreate'', ''base_price'', Some 10, Some 2),
      (''DailyScheduleUpdate'', ''price_override'', Some 10, Some 2)]"
  by (simp add: all_models_def decimal_fields_def model_defs Field_def)

subsection \<open>Validation, field by field\<close>

lemma isl_model_validate: "isl (model_validate now m d) \<longleftrightarrow> validation_errors m d \<noteq> []"
  by (simp add: model_validate_def split: list.splits)

lemma validate_field_name: "(k, e) \<in> set (validate_field d (n, t, f)) \<Longrightarrow> k = n"
  by (auto simp add: validate_field_def split: option.splits if_splits)

lemma validate_field_given:
  "d n = Some v \<Longrightarrow> validate_field d (n, t, f) =
     (if \<not> has_type t v then [(n, WrongType)]
      else (case check_value f v of None \<Rightarrow> [] | Some e \<Rightarrow> [(n, e)]))"
  by (simp add: validate_field_def)

lemma check_value_Field [simp]: "check_value Field v = None"
  by (cases v)
    (simp_all add: check_int_def check_str_def check_decimal_def Field_def split: prod.splits)

lemma has_type_dicts: "list_all (has_type (TDict TAny)) (map VDict ps)"
  by (induction ps) (simp_all add: list_all_iff)

lemma has_type_ints: "list_all (has_type TInt) (map VInt ds)"
  by (induction ds) simp_all

lemma errors_RouteSearch:
  "validation_errors RouteSearch d =
     validate_field d (''departure_location_id'', TInt, Field) @
     validate_field d (''arrival_location_id'', TInt, Field) @
     validate_field d (''travel_date'', TDate, Field) @
     validate_field d (''passenger_count'', TInt, Field\<lparr>default := Default (VInt 1), ge := Some 1\<rparr>)"
  by (simp add: validation_errors_def RouteSearch_def)

lemma well_typed_RouteSearch:
  "well_typed RouteSearch d \<longleftrightarrow>
     (\<exists>v. d ''departure_location_id'' = Some v \<and> has_type TInt v) \<and>
     (\<exists>v. d ''arrival_location_id'' = Some v \<and> has_type TInt v) \<and>
     (\<exists>v. d ''travel_date'' = Some v \<and> has_type TDate v) \<and>
     (\<forall>v. d ''passenger_count'' = Some v \<longrightarrow> has_type TInt v)"
  by (simp add: well_typed_def RouteSearch_def Field_def split: option.splits)

lemma errors_BookingCreate:
  "validation_errors BookingCreate d =
     validate_field d (''daily_schedule_id'', TInt, Field) @
     validate_field d (''passenger_count'', TInt, Field\<lparr>ge := Some 1\<rparr>) @
     validate_field d (''contact_email'', TStr, Field\<lparr>max_length := Some 255\<rparr>) @
     validate_field d (''contact_phone'', TStr, Field\<lparr>max_length := Some 20\<rparr>) @
     validate_field d (''special_requests'', TStr,
       Field\<lparr>default := Default (VStr []), max_length := Some 1000\<rparr>) @
     validate_field d (''passengers'', TList (TDict TAny), Field)"
  by (simp add: validation_errors_def BookingCreate_def)

lemma errors_UserCreate:
  "validation_errors UserCreate d =
     validate_field d (''email'', TStr, Field\<lparr>max_length := Some 255\<rparr>) @
     validate_field d (''password'', TStr, Field\<lparr>min_length := Some 6\<rparr>) @
     validate_field d (''first_name'', TStr, Field\<lparr>max_length := Some 100\<rparr>) @
     validate_field d (''last_name'', TStr, Field\<lparr>max_length := Some 100\<rparr>) @
     validate_field d (''phone'', TOptional TStr,
       Field\<lparr>default := Default VNone, max_length := Some 20\<rparr>) @
     validate_field d (''preferred_language'', TStr,
       Field\<lparr>default := Default (VStr ''en''), max_length := Some 5\<rparr>)"
  by (simp add: validation_errors_def UserCreate_def)

lemma errors_UserLogin:
  "validation_errors UserLogin d =
     validate_field d (''email'', TStr, Field\<lparr>max_length := Some 255\<rparr>) @
     validate_field d (''password'', TStr, Field)"
  by (simp add: validation_errors_def UserLogin_def)

text \<open>The check that \<^verbatim>\<open>ge=1\<close> puts on \<^verbatim>\<open>passenger_count\<close>.\<close>

lemma passenger_count_field:
  "validate_field d (''passenger_count'', TInt, f\<lparr>ge := Some 1\<rparr>) =
     (case d ''passenger_count'' of
        None \<Rightarrow> (if default f = Required then [(''passenger_count'', Missing)] else [])
      | Some v \<Rightarrow>
          (case v of
             VInt n \<Rightarrow> if n < 1 then [(''passenger_count'', GreaterThanEqual)] else []
           | _ \<Rightarrow> [(''passenger_count'', WrongType)]))"
  by (simp add: validate_field_def check_int_def split: option.splits pyval.splits)

lemma RouteSearch_typed:
  assumes "well_typed RouteSearch d"
  shows "validation_errors RouteSearch d =
     validate_field d (''passenger_count'', TInt, Field\<lparr>default := Default (VInt 1), ge := Some 1\<rparr>)"
proof -
  from assms obtain a b c where
    "d ''departure_location_id'' = Some a" "has_type TInt a"
    "d ''arrival_location_id'' = Some b" "has_type TInt b"
    "d ''travel_date'' = Some c" "has_type TDate c"
    by (auto simp add: well_typed_RouteSearch)
  then show ?thesis
    by (simp add: errors_RouteSearch validate_field_given)
qed

subsection \<open>The minimum of passenger\_count\<close>

text \<open>
  C2. For \<^verbatim>\<open>RouteSearch\<close> and for \<^verbatim>\<open>BookingCreate\<close>, arguments whose
  \<^verbatim>\<open>passenger_count\<close> is below 1 are rejected, with the error reported for that
  field, and a \<^verbatim>\<open>passenger_count\<close> of 1 or more raises no error for that field.
  \<^verbatim>\<open>RouteSearch\<close> has no other constraint: arguments that are complete and of the
  annotated types are rejected exactly when \<^verbatim>\<open>passenger_count\<close> is below 1.
\<close>

theorem passenger_count_at_least_one:
  assumes "m = RouteSearch \<or> m = BookingCreate"
    and "d ''passenger_count'' = Some (VInt n)"
  shows "(n < 1 \<longrightarrow> isl (model_validate now m d)
            \<and> (''passenger_count'', GreaterThanEqual) \<in> set (validation_errors m d))
    \<and> (1 \<le> n \<longrightarrow> (\<forall>e. (''passenger_count'', e) \<notin> set (validation_errors m d)))
    \<and> (m = RouteSearch \<and> well_typed m d \<longrightarrow> (isl (model_validate now m d) \<longleftrightarrow> n < 1))"
proof -
  have field: "(n < 1 \<longrightarrow> isl (model_validate now m d)
            \<and> (''passenger_count'', GreaterThanEqual) \<in> set (validation_errors m d))
    \<and> (1 \<le> n \<longrightarrow> (\<forall>e. (''passenger_count'', e) \<notin> set (validation_errors m d)))"
    using assms
    by (auto simp add: isl_model_validate errors_RouteSearch errors_BookingCreate
        passenger_count_field dest!: validate_field_name)
  have whole: "isl (model_validate now m d) \<longleftrightarrow> n < 1"
    if "m = RouteSearch" "well_typed m d"
    using that assms(2)
    by (simp add: isl_model_validate RouteSearch_typed passenger_count_field)
  from field whole show ?thesis by blast
qed

theorem passenger_count_at_least_one_witness:
  "booking_args 7 0 ''a@b.c'' ''123'' [] ''passenger_count'' = Some (VInt 0)
   \<and> isl (model_validate utc_2024 BookingCreate (booking_args 7 0 ''a@b.c'' ''123'' []))
   \<and> (''passenger_count'', GreaterThanEqual)
         \<in> set (validation_errors BookingCreate (booking_args 7 0 ''a@b.c'' ''123'' []))
   \<and> search_args 1 2 3 ''passenger_count'' = Some (VInt 3)
   \<and> well_typed RouteSearch (search_args 1 2 3)
   \<and> \<not> isl (model_validate utc_2024 RouteSearch (search_args 1 2 3))"
proof -
  have a: "booking_args 7 0 ''a@b.c'' ''123'' [] ''passenger_count'' = Some (VInt 0)"
    by (simp add: booking_args_def)
  have b: "search_args 1 2 3 ''passenger_count'' = Some (VInt 3)"
    by (simp add: search_args_def)
  have c: "well_typed RouteSearch (search_args 1 2 3)"
    by (simp add: well_typed_RouteSearch search_args_def)
  from passenger_count_at_least_one
      [of BookingCreate "booking_args 7 0 ''a@b.c'' ''123'' []" 0 utc_2024]
    passenger_count_at_least_one [of RouteSearch "search_args 1 2 3" 3 utc_2024] a b c
  show ?thesis by simp
qed

subsection \<open>What no field constraint relates\<close>

text \<open>
  C6. A \<^verbatim>\<open>Route\<close> whose departure and arrival are the same location is accepted:
  for every location id and duration the arguments validate, and the object built has
  the same id in both fields. (Validation is the stricter path: constructing a table
  class directly does not validate at all.)
\<close>

theorem route_equal_endpoints_accepted:
  "validation_errors Route (route_args a a n) = []
   \<and> (\<exists>r. model_validate now Route (route_args a a n) = Inr r
          \<and> r ''departure_location_id'' = Some (VInt a)
          \<and> r ''arrival_location_id'' = Some (VInt a))"
  by (simp add: model_validate_def construct_def field_value_def validation_errors_def
      route_args_def Route_def validate_field_def Field_def check_int_def)

text \<open>
  C7. \<^verbatim>\<open>BookingCreate\<close> does not compare the list of passengers with
  \<^verbatim>\<open>passenger_count\<close>: whether typed arguments are accepted depends on
  \<^verbatim>\<open>passenger_count\<close> and on the lengths of the two contact strings, and not on the
  list, so a count of 3 with one passenger record is accepted.
\<close>

theorem passengers_length_unchecked:
  "validation_errors BookingCreate (booking_args i n e ph (map VDict ps)) = []
   \<longleftrightarrow> 1 \<le> n \<and> length e \<le> 255 \<and> length ph \<le> 20"
  by (auto simp add: validation_errors_def BookingCreate_def booking_args_def
      validate_field_def Field_def check_int_def check_str_def has_type_dicts)

theorem passengers_length_unchecked_witness:
  "validation_errors BookingCreate
      (booking_args 7 3 ''a@b.c'' ''123'' (map VDict [[(''first_name'', VStr ''A'')]])) = []
   \<and> int (length (map VDict [[(''first_name'', VStr ''A'')]])) \<noteq> 3"
  using passengers_length_unchecked [of 7 3 "''a@b.c''" "''123''" "[[(''first_name'', VStr ''A'')]]"]
  by simp

text \<open>
  C10. Neither \<^verbatim>\<open>Schedule\<close> nor \<^verbatim>\<open>ScheduleCreate\<close> checks the elements of
  \<^verbatim>\<open>days_of_week\<close>: the arguments validate for every list of integers, 7 and -1
  included. When \<^verbatim>\<open>days_of_week\<close> is not given, a \<^verbatim>\<open>Schedule\<close> gets the empty
  list.
\<close>

theorem days_of_week_unchecked:
  "validation_errors Schedule (schedule_args r b ds) = []
   \<and> validation_errors ScheduleCreate (schedule_args r b ds) = []
   \<and> (\<exists>s. model_validate now Schedule (map_of (schedule_args_no_days r b)) = Inr s
          \<and> s ''days_of_week'' = Some (VList []))"
proof -
  have "validation_errors Schedule (schedule_args r b ds) = []"
    by (simp add: validation_errors_def Schedule_def schedule_args_def
        schedule_args_no_days_def validate_field_def Field_def check_int_def check_str_def
        check_decimal_def decimal_digits_def has_type_ints)
  moreover have "validation_errors ScheduleCreate (schedule_args r b ds) = []"
    by (simp add: validation_errors_def ScheduleCreate_def schedule_args_def
        schedule_args_no_days_def validate_field_def Field_def check_int_def check_str_def
        check_decimal_def decimal_digits_def has_type_ints)
  moreover have "\<exists>s. model_validate now Schedule (map_of (schedule_args_no_days r b)) = Inr s
          \<and> s ''days_of_week'' = Some (VList [])"
    by (simp add: model_validate_def construct_def field_value_def validation_errors_def
        Schedule_def schedule_args_no_days_def validate_field_def Field_def check_int_def
        check_str_def check_decimal_def decimal_digits_def)
  ultimately show ?thesis by blast
qed

theorem days_of_week_unchecked_witness:
  "schedule_args 1 2 [7, - 1] ''days_of_week'' = Some (VList [VInt 7, VInt (- 1)])
   \<and> validation_errors Schedule (schedule_args 1 2 [7, - 1]) = []
   \<and> validation_errors ScheduleCreate (schedule_args 1 2 [7, - 1]) = []"
  using days_of_week_unchecked [of 1 2 "[7, - 1]" utc_2024]
  by (simp add: schedule_args_def)

subsection \<open>Passwords\<close>

text \<open>
  C8. The classes with an attribute named \<^verbatim>\<open>password\<close> are \<^verbatim>\<open>UserCreate\<close> and
  \<^verbatim>\<open>UserLogin\<close>, neither of which is a table. The table class \<^verbatim>\<open>User\<close> has
  \<^verbatim>\<open>password_hash\<close> and no attribute \<^verbatim>\<open>password\<close>, and a \<^verbatim>\<open>User\<close> object
  has no \<^verbatim>\<open>password\<close> whatever arguments it is built from, since it has the declared
  attributes only.
\<close>

theorem password_only_in_request_shapes:
  "models_with_attribute ''password'' = [''UserCreate'', ''UserLogin'']
   \<and> tablename UserCreate = None \<and> tablename UserLogin = None
   \<and> tablename User = Some ''users''
   \<and> ''password_hash'' \<in> set (field_names User)
   \<and> ''password'' \<notin> set (attribute_names User)
   \<and> construct now User d ''password'' = None
   \<and> dom (construct now User d) \<subseteq> set (field_names User)"
proof -
  have decls: "models_with_attribute ''password'' = [''UserCreate'', ''UserLogin'']
   \<and> tablename UserCreate = None \<and> tablename UserLogin = None
   \<and> tablename User = Some ''users''
   \<and> ''password_hash'' \<in> set (field_names User)
   \<and> ''password'' \<notin> set (attribute_names User)"
    by (simp add: models_with_attribute_def attribute_names_def field_names_def
        all_models_def model_defs)
  have none: "construct now User d ''password'' = None"
    by (simp add: construct_def User_def)
  have "k \<in> set (field_names User)" if "construct now User d k \<noteq> None" for k
  proof -
    from that have "map_of (model_fields User) k \<noteq> None"
      by (auto simp add: construct_def split: option.splits)
    then show ?thesis
      by (simp add: map_of_eq_None_iff field_names_def)
  qed
  then have "dom (construct now User d) \<subseteq> set (field_names User)"
    by (auto simp add: dom_def)
  with decls none show ?thesis by simp
qed

text \<open>
  C9. \<^verbatim>\<open>UserCreate\<close> rejects a password of fewer than 6 characters, with the error
  reported for that field, and a password of 6 characters or more raises no error for
  that field. \<^verbatim>\<open>UserLogin\<close> reports no error for a password that is a string, and
  \<^verbatim>\<open>UserCreate.password\<close> is the only field of the module that declares
  \<^verbatim>\<open>min_length\<close>.
\<close>

theorem password_min_length:
  assumes "d ''password'' = Some (VStr p)"
  shows "(length p < 6 \<longrightarrow> isl (model_validate now UserCreate d)
            \<and> (''password'', StringTooShort) \<in> set (validation_errors UserCreate d))
    \<and> (6 \<le> length p \<longrightarrow> (\<forall>e. (''password'', e) \<notin> set (validation_errors UserCreate d)))
    \<and> (\<forall>e. (''password'', e) \<notin> set (validation_errors UserLogin d))
    \<and> concat (map min_length_fields all_models) = [(''UserCreate'', ''password'', 6)]"
proof -
  have "concat (map min_length_fields all_models) = [(''UserCreate'', ''password'', 6)]"
    by (simp add: min_length_fields_def all_models_def model_defs Field_def)
  moreover have "(length p < 6 \<longrightarrow> isl (model_validate now UserCreate d)
            \<and> (''password'', StringTooShort) \<in> set (validation_errors UserCreate d))
    \<and> (6 \<le> length p \<longrightarrow> (\<forall>e. (''password'', e) \<notin> set (validation_errors UserCreate d)))
    \<and> (\<forall>e. (''password'', e) \<notin> set (validation_errors UserLogin d))"
    using assms
    by (auto simp add: isl_model_validate errors_UserCreate errors_UserLogin
        validate_field_given check_str_def Field_def dest!: validate_field_name)
  ultimately show ?thesis by simp
qed

theorem password_min_length_witness:
  "user_args ''12345'' ''password'' = Some (VStr ''12345'')
   \<and> isl (model_validate utc_2024 UserCreate (user_args ''12345''))
   \<and> (''password'', StringTooShort) \<in> set (validation_errors UserCreate (user_args ''12345''))
   \<and> user_args ''123456'' ''password'' = Some (VStr ''123456'')
   \<and> validation_errors UserCreate (user_args ''123456'') = []
   \<and> validation_errors UserLogin (user_args ''1'') = []"
proof -
  have a: "user_args ''12345'' ''password'' = Some (VStr ''12345'')"
    by (simp add: user_args_def)
  have b: "user_args ''123456'' ''password'' = Some (VStr ''123456'')"
    by (simp add: user_args_def)
  have c: "validation_errors UserCreate (user_args ''123456'') = []"
    by (simp add: validation_errors_def UserCreate_def user_args_def validate_field_def
        Field_def check_str_def)
  have d: "validation_errors UserLogin (user_args ''1'') = []"
    by (simp add: validation_errors_def UserLogin_def user_args_def validate_field_def
        Field_def check_str_def)
  from password_min_length [of "user_args ''12345''" "''12345''" utc_2024] a b c d
  show ?thesis by simp
qed

subsection \<open>Uniqueness constraints\<close>

lemma tablenames_distinct:
  "distinct (map tablename (filter (\<lambda>m. tablename m \<noteq> None) all_models))"
  by (simp add: all_models_def model_defs)

lemma same_table_same_model:
  assumes "m \<in> set all_models" "m' \<in> set all_models"
    and "tablename m = Some t" "tablename m' = Some t"
  shows "m = m'"
proof -
  let ?ms = "filter (\<lambda>m. tablename m \<noteq> None) all_models"
  from assms have "m \<in> set ?ms" "m' \<in> set ?ms" by simp_all
  moreover have "inj_on tablename (set ?ms)"
    using tablenames_distinct by (simp only: distinct_map)
  moreover have "tablename m = tablename m'"
    using assms(3,4) by simp
  ultimately show ?thesis by (blast dest: inj_onD)
qed

lemma duplicate_column_None:
  "duplicate_column m r rs = None \<longleftrightarrow>
     (\<forall>c \<in> set (unique_columns m). \<forall>r' \<in> set rs. r' c \<noteq> r c)"
  by (auto simp add: duplicate_column_def find_None_iff list_ex_iff)

lemma insert_row_Inr:
  "insert_row m r st = Inr st' \<longleftrightarrow>
     (\<exists>t. tablename m = Some t \<and> duplicate_column m r (st t) = None
        \<and> st' = st(t := st t @ [r]))"
  by (auto simp add: insert_row_def split: option.splits)

text \<open>The invariant, by induction on the inserts that built the store.\<close>

lemma reachable_distinct:
  assumes "reachable st"
  shows "m \<in> set all_models \<Longrightarrow> tablename m = Some t \<Longrightarrow> c \<in> set (unique_columns m)
     \<Longrightarrow> distinct (map (\<lambda>r. r c) (st t))"
  using assms
proof (induction arbitrary: m t c rule: reachable.induct)
  case reachable_empty
  then show ?case by (simp add: empty_store_def)
next
  case (reachable_insert st m' r st')
  from reachable_insert.hyps(3) obtain t' where t': "tablename m' = Some t'"
    and nodup: "duplicate_column m' r (st t') = None"
    and st': "st' = st(t' := st t' @ [r])"
    by (auto simp add: insert_row_Inr)
  have old: "distinct (map (\<lambda>r. r c) (st t))"
    using reachable_insert.IH reachable_insert.prems by blast
  show ?case
  proof (cases "t' = t")
    case False
    with st' old show ?thesis by simp
  next
    case True
    with t' reachable_insert.prems reachable_insert.hyps(2) have "m' = m"
      using same_table_same_model by blast
    with nodup True reachable_insert.prems(3) have "\<forall>r' \<in> set (st t). r' c \<noteq> r c"
      by (simp add: duplicate_column_None)
    with old st' True show ?thesis by auto
  qed
qed

text \<open>
  C1. The columns declared \<^verbatim>\<open>unique=True\<close> are \<^verbatim>\<open>Language.code\<close>,
  \<^verbatim>\<open>User.email\<close>, \<^verbatim>\<open>Location.code\<close>, \<^verbatim>\<open>Booking.booking_reference\<close>,
  \<^verbatim>\<open>Payment.payment_reference\<close> and \<^verbatim>\<open>SystemSettings.key\<close>. For each of them,
  in every store reached by inserts, the insert of a row whose value in the column is
  that of a stored row is rejected, and no two rows of the table have the same value in
  the column.
\<close>

theorem unique_columns_stay_unique:
  assumes "reachable st" and "m \<in> set all_models" and "tablename m = Some t"
    and "c \<in> set (unique_columns m)"
  shows "(\<forall>r. (\<exists>r' \<in> set (st t). r' c = r c) \<longrightarrow> isl (insert_row m r st))
    \<and> distinct (map (\<lambda>r. r c) (st t))
    \<and> (\<forall>i j. i < j \<and> j < length (st t) \<longrightarrow> (st t ! i) c \<noteq> (st t ! j) c)
    \<and> map (\<lambda>m. (model_name m, unique_columns m))
          (filter (\<lambda>m. unique_columns m \<noteq> []) all_models) =
        [(''Language'', [''code'']), (''User'', [''email'']), (''Location'', [''code'']),
         (''Booking'', [''booking_reference'']), (''Payment'', [''payment_reference'']),
         (''SystemSettings'', [''key''])]"
proof -
  have decls: "map (\<lambda>m. (model_name m, unique_columns m))
          (filter (\<lambda>m. unique_columns m \<noteq> []) all_models) =
        [(''Language'', [''code'']), (''User'', [''email'']), (''Location'', [''code'']),
         (''Booking'', [''booking_reference'']), (''Payment'', [''payment_reference'']),
         (''SystemSettings'', [''key''])]"
    by (simp add: unique_columns_def all_models_def model_defs Field_def)
  have d: "distinct (map (\<lambda>r. r c) (st t))"
    using assms by (rule reachable_distinct)
  have rej: "isl (insert_row m r st)" if "\<exists>r' \<in> set (st t). r' c = r c" for r
  proof -
    from that assms(4) have "duplicate_column m r (st t) \<noteq> None"
      by (auto simp add: duplicate_column_None)
    with assms(3) show ?thesis
      by (auto simp add: insert_row_def)
  qed
  have "(st t ! i) c \<noteq> (st t ! j) c" if "i < j \<and> j < length (st t)" for i j
  proof -
    let ?xs = "map (\<lambda>r. r c) (st t)"
    have "(?xs ! i = ?xs ! j) = (i = j)"
      using d that by (intro nth_eq_iff_index_eq) simp_all
    with that show ?thesis by simp
  qed
  with d rej decls show ?thesis by blast
qed

theorem unique_columns_stay_unique_witness:
  "reachable one_user_store
   \<and> User \<in> set all_models \<and> tablename User = Some ''users''
   \<and> ''email'' \<in> set (unique_columns User)
   \<and> one_user_store ''users'' = [user_row ''a@b.c'' ''h1'']
   \<and> insert_row User (user_row ''a@b.c'' ''h2'') one_user_store = Inl (IntegrityError ''email'')
   \<and> isl (insert_row User (user_row ''a@b.c'' ''h2'') one_user_store)
   \<and> \<not> isl (insert_row User (user_row ''x@y.z'' ''h2'') one_user_store)"
proof -
  have m: "User \<in> set all_models"
    by (simp add: all_models_def)
  have t: "tablename User = Some ''users''"
    by (simp add: User_def)
  have c: "''email'' \<in> set (unique_columns User)"
    by (simp add: unique_columns_def User_def Field_def)
  have u: "unique_columns User = [''email'']"
    by (simp add: unique_columns_def User_def Field_def)
  have e: "user_row a h ''email'' = Some (VStr a)" for a h
    by (simp add: user_row_def construct_def field_value_def User_def)
  have "insert_row User (user_row ''a@b.c'' ''h1'') empty_store = Inr one_user_store"
    by (simp add: insert_row_def t u duplicate_column_def empty_store_def one_user_store_def)
  with reachable_empty m have r: "reachable one_user_store"
    by (rule reachable_insert)
  have s: "one_user_store ''users'' = [user_row ''a@b.c'' ''h1'']"
    by (simp add: one_user_store_def)
  have dup: "insert_row User (user_row ''a@b.c'' ''h2'') one_user_store
      = Inl (IntegrityError ''email'')"
    by (simp add: insert_row_def t duplicate_column_def u s e)
  have fresh: "\<not> isl (insert_row User (user_row ''x@y.z'' ''h2'') one_user_store)"
    by (simp add: insert_row_def t duplicate_column_def u s e)
  from unique_columns_stay_unique [OF r m t c] s e
  have "isl (insert_row User (user_row ''a@b.c'' ''h2'') one_user_store)"
    by simp
  with r m t c s dup fresh show ?thesis by simp
qed

subsection \<open>Partial updates of a daily schedule\<close>

text \<open>
  C3. A field that is absent from a \<^verbatim>\<open>DailyScheduleUpdate\<close> leaves that field of the
  target as it is, so an update in which all five fields (\<^verbatim>\<open>available_seats\<close>,
  \<^verbatim>\<open>price_override\<close>, \<^verbatim>\<open>is_available\<close>, \<^verbatim>\<open>booking_deadline\<close>,
  \<^verbatim>\<open>notes\<close>) are absent, such as the one built from no argument, leaves the whole
  target unchanged; a field that is present is written.
\<close>

theorem absent_fields_left_unchanged:
  "(upd k = None \<or> upd k = Some VNone \<longrightarrow> apply_update target upd k = target k)
   \<and> ((\<forall>k \<in> set (field_names DailyScheduleUpdate). upd k = None \<or> upd k = Some VNone)
        \<longrightarrow> apply_update target upd = target)
   \<and> (k \<in> set (field_names DailyScheduleUpdate) \<and> upd k = Some v \<and> v \<noteq> VNone
        \<longrightarrow> apply_update target upd k = Some v)
   \<and> apply_update target (construct now DailyScheduleUpdate Map.empty) = target
   \<and> field_names DailyScheduleUpdate =
        [''available_seats'', ''price_override'', ''is_available'', ''booking_deadline'', ''notes'']"
proof -
  have names: "field_names DailyScheduleUpdate =
        [''available_seats'', ''price_override'', ''is_available'', ''booking_deadline'', ''notes'']"
    by (simp add: field_names_def DailyScheduleUpdate_def)
  have one: "apply_update target upd k = target k" if "upd k = None \<or> upd k = Some VNone"
    using that by (auto simp add: apply_update_def)
  have all: "apply_update target upd = target"
    if "\<forall>k \<in> set (field_names DailyScheduleUpdate). upd k = None \<or> upd k = Some VNone"
  proof
    fix k show "apply_update target upd k = target k"
      using that
      by (cases "k \<in> set (field_names DailyScheduleUpdate)") (auto simp add: apply_update_def)
  qed
  have written: "apply_update target upd k = Some v"
    if "k \<in> set (field_names DailyScheduleUpdate) \<and> upd k = Some v \<and> v \<noteq> VNone"
    using that by (simp add: apply_update_def)
  have absent: "construct now DailyScheduleUpdate Map.empty k = Some VNone"
    if "k \<in> set (field_names DailyScheduleUpdate)" for k
    using that unfolding names
    by (auto simp add: construct_def field_value_def DailyScheduleUpdate_def Field_def)
  have empty: "apply_update target (construct now DailyScheduleUpdate Map.empty) = target"
  proof
    fix k show "apply_update target (construct now DailyScheduleUpdate Map.empty) k = target k"
      by (cases "k \<in> set (field_names DailyScheduleUpdate)")
        (simp_all add: apply_update_def absent)
  qed
  from names one all written empty show ?thesis by blast
qed

theorem absent_fields_left_unchanged_witness:
  "seats_update 5 ''notes'' = Some VNone
   \<and> apply_update daily_schedule_row (seats_update 5) ''notes'' = Some (VStr [])
   \<and> daily_schedule_row ''available_seats'' = Some (VInt 40)
   \<and> apply_update daily_schedule_row (seats_update 5) ''available_seats'' = Some (VInt 5)
   \<and> apply_update daily_schedule_row (construct utc_2024 DailyScheduleUpdate Map.empty)
       = daily_schedule_row"
proof -
  have a: "seats_update 5 ''notes'' = Some VNone"
    by (simp add: seats_update_def construct_def field_value_def DailyScheduleUpdate_def
        Field_def)
  have b: "seats_update 5 ''available_seats'' = Some (VInt 5)"
    by (simp add: seats_update_def construct_def field_value_def DailyScheduleUpdate_def)
  have c: "daily_schedule_row ''notes'' = Some (VStr [])"
    by (simp add: daily_schedule_row_def construct_def field_value_def DailySchedule_def
        Field_def)
  have d: "daily_schedule_row ''available_seats'' = Some (VInt 40)"
    by (simp add: daily_schedule_row_def construct_def field_value_def DailySchedule_def)
  from absent_fields_left_unchanged
      [of "seats_update 5" "''notes''" daily_schedule_row "VInt 5" utc_2024]
    absent_fields_left_unchanged
      [of "seats_update 5" "''available_seats''" daily_schedule_row "VInt 5" utc_2024]
    a b c d
  show ?thesis by simp
qed

subsection \<open>Schedules active on a date\<close>

lemma weekday_2024_06_10: "weekday (2024, 6, 10) = Some 0"
  by (simp add: weekday_def valid_date_def days_in_month_def DAYS_IN_MONTH_def toordinal_def
      days_before_year_def days_before_month_def DAYS_BEFORE_MONTH_def is_leap_def)

text \<open>
  C4. 2024-06-10 is a Monday, weekday 0, and a schedule with
  \<^verbatim>\<open>days_of_week=[0,2,4]\<close>, \<^verbatim>\<open>effective_from=2024-01-01\<close>, no
  \<^verbatim>\<open>effective_until\<close> and status active is active on it. In general a schedule is
  active on a date exactly when the weekday of the date is among its
  \<^verbatim>\<open>days_of_week\<close>, the date is not before \<^verbatim>\<open>effective_from\<close>, it is not after
  \<^verbatim>\<open>effective_until\<close> when there is one, and the status is active.
\<close>

theorem schedule_active_on_monday:
  assumes "s ''days_of_week'' = Some (VList [VInt 0, VInt 2, VInt 4])"
    and "s ''effective_from'' = Some (VDate 2024 1 1)"
    and "s ''effective_until'' = Some VNone"
    and "s ''status'' = Some (VStr ''active'')"
  shows "weekday (2024, 6, 10) = Some 0 \<and> is_active_on s (2024, 6, 10)
    \<and> (\<forall>r dt. is_active_on r dt \<longleftrightarrow>
         (\<exists>w ds y m d. weekday dt = Some w
            \<and> r ''days_of_week'' = Some (VList ds) \<and> VInt w \<in> set ds
            \<and> r ''effective_from'' = Some (VDate y m d) \<and> date_le (y, m, d) dt
            \<and> (r ''effective_until'' = Some VNone
                \<or> (\<exists>y' m' d'. r ''effective_until'' = Some (VDate y' m' d')
                      \<and> date_le dt (y', m', d')))
            \<and> r ''status'' = Some (VStr ''active'')))"
proof -
  have example: "is_active_on s (2024, 6, 10)"
    using assms
    by (simp add: weekday_2024_06_10 is_active_on_def runs_on_weekday_def starts_by_def
        not_ended_def date_le_def)
  have rule: "is_active_on r dt \<longleftrightarrow>
         (\<exists>w ds y m d. weekday dt = Some w
            \<and> r ''days_of_week'' = Some (VList ds) \<and> VInt w \<in> set ds
            \<and> r ''effective_from'' = Some (VDate y m d) \<and> date_le (y, m, d) dt
            \<and> (r ''effective_until'' = Some VNone
                \<or> (\<exists>y' m' d'. r ''effective_until'' = Some (VDate y' m' d')
                      \<and> date_le dt (y', m', d')))
            \<and> r ''status'' = Some (VStr ''active''))" for r dt
    by (auto simp add: is_active_on_def runs_on_weekday_def starts_by_def not_ended_def
        split: option.splits pyval.splits)
  from example rule weekday_2024_06_10 show ?thesis by blast
qed

theorem schedule_active_on_monday_witness:
  "construct utc_2024 Schedule (schedule_args 1 2 [0, 2, 4]) ''days_of_week''
      = Some (VList [VInt 0, VInt 2, VInt 4])
   \<and> construct utc_2024 Schedule (schedule_args 1 2 [0, 2, 4]) ''effective_from''
      = Some (VDate 2024 1 1)
   \<and> construct utc_2024 Schedule (schedule_args 1 2 [0, 2, 4]) ''effective_until'' = Some VNone
   \<and> construct utc_2024 Schedule (schedule_args 1 2 [0, 2, 4]) ''status'' = Some (VStr ''active'')
   \<and> is_active_on (construct utc_2024 Schedule (schedule_args 1 2 [0, 2, 4])) (2024, 6, 10)"
proof -
  let ?s = "construct utc_2024 Schedule (schedule_args 1 2 [0, 2, 4])"
  have a: "?s ''days_of_week'' = Some (VList [VInt 0, VInt 2, VInt 4])"
    by (simp add: construct_def field_value_def Schedule_def schedule_args_def
        schedule_args_no_days_def)
  have b: "?s ''effective_from'' = Some (VDate 2024 1 1)"
    by (simp add: construct_def field_value_def Schedule_def schedule_args_def
        schedule_args_no_days_def)
  have c: "?s ''effective_until'' = Some VNone"
    by (simp add: construct_def field_value_def Schedule_def schedule_args_def
        schedule_args_no_days_def Field_def)
  have d: "?s ''status'' = Some (VStr ''active'')"
    by (simp add: construct_def field_value_def Schedule_def schedule_args_def
        schedule_args_no_days_def Field_def)
  from schedule_active_on_monday [OF a b c d] have "is_active_on ?s (2024, 6, 10)"
    by blast
  with a b c d show ?thesis by blast
qed

end
